theory Spec2Isabelle
  imports Main "HOL-Library.AList"
begin

section \<open>JavaScript values, completions and the object store\<close>

text \<open>
  The module \<^verbatim>\<open>05-objects-tasks.js\<close> is modelled over a small object store.
  A JavaScript value is \<^verbatim>\<open>undefined\<close>, \<^verbatim>\<open>null\<close>, a string, or a reference to an
  object of class \<^verbatim>\<open>CssSelectorBuilder\<close> (the only class of the module). The selector
  fragments handed to \<^verbatim>\<open>element\<close>, \<^verbatim>\<open>id\<close>, \<^verbatim>\<open>class\<close>, \<^verbatim>\<open>attr\<close>, \<^verbatim>\<open>pseudoClass\<close> and
  \<^verbatim>\<open>pseudoElement\<close> are strings; the parameter of \<^verbatim>\<open>combine\<close> and the fields
  \<^verbatim>\<open>selector1\<close>, \<^verbatim>\<open>selector2\<close>, \<^verbatim>\<open>combinator\<close> hold arbitrary values, because callers
  hand selector objects to \<^verbatim>\<open>combine\<close>.
\<close>

type_synonym addr = nat

datatype jsval = JUndefined | JNull | JString string | JObject addr

datatype jserror = TypeError | RangeError | SyntaxError

datatype 'a completion = Return 'a | Throw jserror

text \<open>Truthiness, as tested by \<^verbatim>\<open>if (x)\<close> and \<^verbatim>\<open>!x\<close>.\<close>

fun ToBoolean :: "jsval \<Rightarrow> bool" where
  "ToBoolean JUndefined = False"
| "ToBoolean JNull = False"
| "ToBoolean (JString s) = (s \<noteq> [])"
| "ToBoolean (JObject a) = True"

text \<open>
  Conversion to a string, as done by a template literal. The class defines no
  \<^verbatim>\<open>toString\<close>, so an object prints through \<^verbatim>\<open>Object.prototype.toString\<close>.
\<close>

fun ToString :: "jsval \<Rightarrow> string" where
  "ToString JUndefined = ''undefined''"
| "ToString JNull = ''null''"
| "ToString (JString s) = s"
| "ToString (JObject a) = ''[object Object]''"

text \<open>\<^verbatim>\<open>Array.prototype.join\<close> on an array of strings.\<close>

fun join :: "string \<Rightarrow> string list \<Rightarrow> string" where
  "join sep [] = []"
| "join sep [x] = x"
| "join sep (x # y # ys) = x @ sep @ join sep (y # ys)"


section \<open>The class CssSelectorBuilder\<close>

record CssSelectorBuilder =
  elementType :: string
  idName :: string
  classNames :: "string list"
  attributes :: "string list"
  pseudoClasses :: "string list"
  pseudoElem :: string
  selector1 :: jsval
  selector2 :: jsval
  combinator :: jsval

type_synonym heap = "addr \<rightharpoonup> CssSelectorBuilder"

definition constructor :: CssSelectorBuilder where
  "constructor =
     \<lparr>elementType = [], idName = [], classNames = [], attributes = [],
      pseudoClasses = [], pseudoElem = [],
      selector1 = JNull, selector2 = JNull, combinator = JString []\<rparr>"

definition clean :: "CssSelectorBuilder \<Rightarrow> CssSelectorBuilder" where
  "clean this =
     this\<lparr>elementType := [], idName := [], classNames := [], attributes := [],
          pseudoClasses := [], pseudoElem := [],
          selector1 := JNull, selector2 := JNull, combinator := JString []\<rparr>"

definition element :: "string \<Rightarrow> CssSelectorBuilder \<Rightarrow> CssSelectorBuilder" where
  "element val this =
     (if \<not> ToBoolean (JString (elementType this)) then this\<lparr>elementType := val\<rparr> else this)"

definition id_method :: "string \<Rightarrow> CssSelectorBuilder \<Rightarrow> CssSelectorBuilder" where
  "id_method val this = this\<lparr>idName := val\<rparr>"

definition class_method :: "string \<Rightarrow> CssSelectorBuilder \<Rightarrow> CssSelectorBuilder" where
  "class_method val this = this\<lparr>classNames := classNames this @ [val]\<rparr>"

definition attr :: "string \<Rightarrow> CssSelectorBuilder \<Rightarrow> CssSelectorBuilder" where
  "attr val this = this\<lparr>attributes := attributes this @ [val]\<rparr>"

definition pseudoClass :: "string \<Rightarrow> CssSelectorBuilder \<Rightarrow> CssSelectorBuilder" where
  "pseudoClass val this = this\<lparr>pseudoClasses := pseudoClasses this @ [val]\<rparr>"

definition pseudoElement :: "string \<Rightarrow> CssSelectorBuilder \<Rightarrow> CssSelectorBuilder" where
  "pseudoElement val this = this\<lparr>pseudoElem := val\<rparr>"

text \<open>
  \<^verbatim>\<open>combine\<close> declares one parameter. A call binds it to the first argument
  (\<^verbatim>\<open>undefined\<close> when there is none) and drops the others.
\<close>

definition combine :: "jsval list \<Rightarrow> CssSelectorBuilder \<Rightarrow> CssSelectorBuilder" where
  "combine args this =
     (let combinator' = (case args of [] \<Rightarrow> JUndefined | a # _ \<Rightarrow> a)
      in this\<lparr>combinator := combinator'\<rparr>)"

text \<open>The \<^verbatim>\<open>else\<close> branch of \<^verbatim>\<open>stringify\<close>: the six guarded appends to \<^verbatim>\<open>result\<close>.\<close>

definition stringify_simple :: "CssSelectorBuilder \<Rightarrow> string" where
  "stringify_simple this =
     (let result = [];
          result = (if ToBoolean (JString (elementType this))
                    then result @ elementType this else result);
          result = (if ToBoolean (JString (idName this))
                    then result @ ''#'' @ idName this else result);
          result = (if length (classNames this) > 0
                    then result @ ''.'' @ join ''.'' (classNames this) else result);
          result = (if length (attributes this) > 0
                    then result @ ''['' @ join [] (attributes this) @ '']'' else result);
          result = (if length (pseudoClasses this) > 0
                    then result @ '':'' @ join '':'' (pseudoClasses this) else result);
          result = (if ToBoolean (JString (pseudoElem this))
                    then result @ ''::'' @ pseudoElem this else result)
      in result)"

text \<open>
  \<^verbatim>\<open>stringify\<close> on the object at address \<open>this\<close>. The first argument bounds the depth
  of the call stack: the method calls itself on \<^verbatim>\<open>selector1\<close> and \<^verbatim>\<open>selector2\<close>, and a
  stack that runs out throws \<^verbatim>\<open>RangeError\<close>. Calling \<^verbatim>\<open>stringify\<close> on a value that is
  not an object of the class throws \<^verbatim>\<open>TypeError\<close>. The fields \<^verbatim>\<open>combinator\<close> and
  \<^verbatim>\<open>selector2\<close> are read after the first nested call has returned, from the store it
  left. The store is returned in every case, with the mutations made so far.
\<close>

fun stringify :: "nat \<Rightarrow> heap \<Rightarrow> addr \<Rightarrow> string completion \<times> heap" where
  "stringify 0 h this = (Throw RangeError, h)"
| "stringify (Suc depth) h this =
     (case h this of
        None \<Rightarrow> (Throw TypeError, h)
      | Some b \<Rightarrow>
          if ToBoolean (selector1 b) then
            (case selector1 b of
               JObject a1 \<Rightarrow>
                 (case stringify depth h a1 of
                    (Throw e, h1) \<Rightarrow> (Throw e, h1)
                  | (Return r1, h1) \<Rightarrow>
                      (case h1 this of
                         None \<Rightarrow> (Throw TypeError, h1)
                       | Some b1 \<Rightarrow>
                           (let result = r1 @ '' '' @ ToString (combinator b1) @ '' ''
                            in case selector2 b1 of
                                 JObject a2 \<Rightarrow>
                                   (case stringify depth h1 a2 of
                                      (Throw e, h2) \<Rightarrow> (Throw e, h2)
                                    | (Return r2, h2) \<Rightarrow>
                                        (case h2 this of
                                           None \<Rightarrow> (Throw TypeError, h2)
                                         | Some b2 \<Rightarrow>
                                             (Return (result @ r2), h2(this \<mapsto> clean b2))))
                               | _ \<Rightarrow> (Throw TypeError, h1))))
             | _ \<Rightarrow> (Throw TypeError, h))
          else (Return (stringify_simple b), h(this \<mapsto> clean b)))"


section \<open>Method calls and chains\<close>

datatype call =
    Element string
  | Id string
  | Class string
  | Attr string
  | PseudoClass string
  | PseudoElement string
  | Combine "jsval list"
  | Stringify

text \<open>
  A method call \<^verbatim>\<open>recv.m(args)\<close>. The receiver must be an object of the class. Every
  method but \<^verbatim>\<open>stringify\<close> mutates the receiver in place and returns \<^verbatim>\<open>this\<close>.
\<close>

fun invoke :: "nat \<Rightarrow> call \<Rightarrow> jsval \<Rightarrow> heap \<Rightarrow> jsval completion \<times> heap" where
  "invoke depth c (JObject this) h =
     (case h this of
        None \<Rightarrow> (Throw TypeError, h)
      | Some b \<Rightarrow>
          (case c of
             Element val \<Rightarrow> (Return (JObject this), h(this \<mapsto> element val b))
           | Id val \<Rightarrow> (Return (JObject this), h(this \<mapsto> id_method val b))
           | Class val \<Rightarrow> (Return (JObject this), h(this \<mapsto> class_method val b))
           | Attr val \<Rightarrow> (Return (JObject this), h(this \<mapsto> attr val b))
           | PseudoClass val \<Rightarrow> (Return (JObject this), h(this \<mapsto> pseudoClass val b))
           | PseudoElement val \<Rightarrow> (Return (JObject this), h(this \<mapsto> pseudoElement val b))
           | Combine args \<Rightarrow> (Return (JObject this), h(this \<mapsto> combine args b))
           | Stringify \<Rightarrow>
               (case stringify depth h this of
                  (Return r, h') \<Rightarrow> (Return (JString r), h')
                | (Throw e, h') \<Rightarrow> (Throw e, h'))))"
| "invoke depth c recv h = (Throw TypeError, h)"

text \<open>
  A fluent chain \<^verbatim>\<open>recv.m1(..).m2(..)...\<close>: each call's receiver is the value the
  previous call returned; an exception ends the chain.
\<close>

fun chain :: "nat \<Rightarrow> call list \<Rightarrow> jsval \<Rightarrow> heap \<Rightarrow> jsval completion \<times> heap" where
  "chain depth [] recv h = (Return recv, h)"
| "chain depth (c # cs) recv h =
     (case invoke depth c recv h of
        (Return r, h') \<Rightarrow> chain depth cs r h'
      | (Throw e, h') \<Rightarrow> (Throw e, h'))"

text \<open>
  The module creates one object, \<^verbatim>\<open>const cssSelectorBuilder = new CssSelectorBuilder()\<close>,
  and exports it. Nothing else in the module allocates.
\<close>

definition cssSelectorBuilder :: jsval where
  "cssSelectorBuilder = JObject 0"

definition module_heap :: heap where
  "module_heap = [0 \<mapsto> constructor]"

text \<open>Sequencing of two computations on the store: the second runs if the first returns.\<close>

definition and_then ::
  "jsval completion \<times> heap \<Rightarrow> (jsval \<Rightarrow> heap \<Rightarrow> jsval completion \<times> heap)
     \<Rightarrow> jsval completion \<times> heap" where
  "and_then m f = (case m of (Return v, h) \<Rightarrow> f v h | (Throw e, h) \<Rightarrow> (Throw e, h))"


text \<open>
  A program that uses the exported object is a sequence of method calls, each with the
  stack depth it has left and with the receiver it calls on (any value the program
  holds). \<open>run\<close> gives the store such a program leaves, whatever each call returned
  or threw.
\<close>

fun run :: "(nat \<times> call \<times> jsval) list \<Rightarrow> heap \<Rightarrow> heap" where
  "run [] h = h"
| "run ((depth, c, recv) # prog) h = run prog (snd (invoke depth c recv h))"

text \<open>
  The field update each call makes on a receiver that is a simple selector
  (\<^verbatim>\<open>stringify\<close> ends with \<^verbatim>\<open>this.clean()\<close>).
\<close>

fun effect :: "call \<Rightarrow> CssSelectorBuilder \<Rightarrow> CssSelectorBuilder" where
  "effect (Element v) = element v"
| "effect (Id v) = id_method v"
| "effect (Class v) = class_method v"
| "effect (Attr v) = attr v"
| "effect (PseudoClass v) = pseudoClass v"
| "effect (PseudoElement v) = pseudoElement v"
| "effect (Combine args) = combine args"
| "effect Stringify = clean"


section \<open>Example programs\<close>

text \<open>
  \<^verbatim>\<open>builder.combine(builder.combine(builder.element('div'), '+', builder.element('span')),
                  '>', builder.element('p')).stringify()\<close>
  with \<^verbatim>\<open>builder = cssSelectorBuilder\<close>. Arguments are evaluated left to right before
  the call they belong to.
\<close>

definition combine_example :: "nat \<Rightarrow> jsval completion \<times> heap" where
  "combine_example depth =
     and_then (invoke depth (Element ''div'') cssSelectorBuilder module_heap) (\<lambda>l1 h.
     and_then (invoke depth (Element ''span'') cssSelectorBuilder h) (\<lambda>r1 h.
     and_then (invoke depth (Combine [l1, JString ''+'', r1]) cssSelectorBuilder h) (\<lambda>l2 h.
     and_then (invoke depth (Element ''p'') cssSelectorBuilder h) (\<lambda>r2 h.
     and_then (invoke depth (Combine [l2, JString ''>'', r2]) cssSelectorBuilder h) (\<lambda>s h.
     invoke depth Stringify s h)))))"

text \<open>
  The nested \<^verbatim>\<open>combine\<close> example of the class's documentation comment, for which the
  comment gives the output
  \<^verbatim>\<open>'div#main.container.draggable + table#data ~ tr:nth-of-type(even)   td:nth-of-type(even)'\<close>.
\<close>

definition documented_example :: "nat \<Rightarrow> jsval completion \<times> heap" where
  "documented_example depth =
     and_then (chain depth [Element ''div'', Id ''main'', Class ''container'', Class ''draggable'']
                 cssSelectorBuilder module_heap) (\<lambda>a h.
     and_then (chain depth [Element ''table'', Id ''data''] cssSelectorBuilder h) (\<lambda>b h.
     and_then (chain depth [Element ''tr'', PseudoClass ''nth-of-type(even)'']
                 cssSelectorBuilder h) (\<lambda>c h.
     and_then (chain depth [Element ''td'', PseudoClass ''nth-of-type(even)'']
                 cssSelectorBuilder h) (\<lambda>d h.
     and_then (invoke depth (Combine [c, JString '' '', d]) cssSelectorBuilder h) (\<lambda>cd h.
     and_then (invoke depth (Combine [b, JString ''~'', cd]) cssSelectorBuilder h) (\<lambda>bcd h.
     and_then (invoke depth (Combine [a, JString ''+'', bcd]) cssSelectorBuilder h) (\<lambda>s h.
     invoke depth Stringify s h)))))))"

text \<open>
  Two chains whose calls interleave:
  \<^verbatim>\<open>const a = builder.element('div'); const b = builder.id('x'); a.stringify()\<close>.
\<close>

definition interleaved_example :: "nat \<Rightarrow> jsval completion \<times> heap" where
  "interleaved_example depth =
     and_then (invoke depth (Element ''div'') cssSelectorBuilder module_heap) (\<lambda>a h.
     and_then (invoke depth (Id ''x'') cssSelectorBuilder h) (\<lambda>b h.
     invoke depth Stringify a h))"

text \<open>
  The first two operands of the documentation comment's \<^verbatim>\<open>combine\<close> example, both built
  before the first is rendered:
  \<^verbatim>\<open>const a = builder.element('div').id('main').class('container').class('draggable');
  const b = builder.element('table').id('data'); a.stringify()\<close>.
\<close>

definition documented_operands :: "nat \<Rightarrow> jsval completion \<times> heap" where
  "documented_operands depth =
     and_then (chain depth [Element ''div'', Id ''main'', Class ''container'', Class ''draggable'']
                 cssSelectorBuilder module_heap) (\<lambda>a h.
     and_then (chain depth [Element ''table'', Id ''data''] cssSelectorBuilder h) (\<lambda>b h.
     invoke depth Stringify a h))"

text \<open>
  A store that no program of the module produces: the object at 0 has \<^verbatim>\<open>selector1\<close>
  and \<^verbatim>\<open>selector2\<close> set. It exercises the first branch of \<^verbatim>\<open>stringify\<close>.
\<close>

definition combined_heap :: heap where
  "combined_heap =
     [0 \<mapsto> constructor\<lparr>selector1 := JObject 1, selector2 := JObject 2,
                          combinator := JString ''+''\<rparr>,
      1 \<mapsto> constructor\<lparr>elementType := ''div''\<rparr>,
      2 \<mapsto> constructor\<lparr>elementType := ''span''\<rparr>]"


section \<open>The rendering in the specification's words\<close>

text \<open>
  The fragment groups of a simple selector as the specification describes them, to be
  compared with what \<open>stringify_simple\<close> computes.
\<close>

definition id_group :: "string \<Rightarrow> string" where
  "id_group i = (if i = [] then [] else ''#'' @ i)"

definition class_group :: "string list \<Rightarrow> string" where
  "class_group cs = concat (map (\<lambda>c. ''.'' @ c) cs)"

definition attribute_group :: "string list \<Rightarrow> string" where
  "attribute_group as = (if as = [] then [] else ''['' @ concat as @ '']'')"

definition pseudoClass_group :: "string list \<Rightarrow> string" where
  "pseudoClass_group ps = concat (map (\<lambda>p. '':'' @ p) ps)"

definition pseudoElement_group :: "string \<Rightarrow> string" where
  "pseudoElement_group e = (if e = [] then [] else ''::'' @ e)"

definition canonical :: "CssSelectorBuilder \<Rightarrow> string" where
  "canonical b =
     elementType b @ id_group (idName b) @ class_group (classNames b) @
     attribute_group (attributes b) @ pseudoClass_group (pseudoClasses b) @
     pseudoElement_group (pseudoElem b)"

text \<open>The arguments a chain gives to each kind of building call, in call order.\<close>

definition element_args :: "call list \<Rightarrow> string list" where
  "element_args = List.map_filter (\<lambda>c. case c of Element v \<Rightarrow> Some v | _ \<Rightarrow> None)"

definition id_args :: "call list \<Rightarrow> string list" where
  "id_args = List.map_filter (\<lambda>c. case c of Id v \<Rightarrow> Some v | _ \<Rightarrow> None)"

definition class_args :: "call list \<Rightarrow> string list" where
  "class_args = List.map_filter (\<lambda>c. case c of Class v \<Rightarrow> Some v | _ \<Rightarrow> None)"

definition attr_args :: "call list \<Rightarrow> string list" where
  "attr_args = List.map_filter (\<lambda>c. case c of Attr v \<Rightarrow> Some v | _ \<Rightarrow> None)"

definition pseudoClass_args :: "call list \<Rightarrow> string list" where
  "pseudoClass_args = List.map_filter (\<lambda>c. case c of PseudoClass v \<Rightarrow> Some v | _ \<Rightarrow> None)"

definition pseudoElement_args :: "call list \<Rightarrow> string list" where
  "pseudoElement_args = List.map_filter (\<lambda>c. case c of PseudoElement v \<Rightarrow> Some v | _ \<Rightarrow> None)"

text \<open>The first non-empty string of a list, and the last string of a list (empty if none).\<close>

definition first_nonempty :: "string list \<Rightarrow> string" where
  "first_nonempty vs = (case filter (\<lambda>v. v \<noteq> []) vs of [] \<Rightarrow> [] | v # _ \<Rightarrow> v)"

definition last_given :: "string list \<Rightarrow> string" where
  "last_given vs = (if vs = [] then [] else last vs)"


section \<open>getJSON and fromJSON\<close>

text \<open>
  \<^verbatim>\<open>getJSON\<close> and \<^verbatim>\<open>fromJSON\<close> call four built-ins of the language.
  \<^verbatim>\<open>JSON.stringify\<close> and \<^verbatim>\<open>JSON.parse\<close> are parameters of the two functions here; a
  parse that throws \<^verbatim>\<open>SyntaxError\<close> is \<open>None\<close>. \<^verbatim>\<open>Object.create\<close> and \<^verbatim>\<open>Object.assign\<close>
  are written out for ordinary objects, after the language specification
  (OrdinaryObjectCreate, Object.assign, OrdinarySetWithOwnDescriptor,
  CreateDataProperty).

  A JSON value is a tree; numbers are of an arbitrary type \<open>'n\<close>, since nothing here
  computes with them. A property holds a JSON value or some other value (a function,
  for instance), which is identified by a number.
\<close>

datatype 'n json =
    VNull
  | VBool bool
  | VNumber 'n
  | VString string
  | VArray "'n json list"
  | VObject "(string \<times> 'n json) list"

datatype 'n pvalue = Json "'n json" | Other nat

text \<open>
  A data property has a value and the flags writable, enumerable, configurable; an
  accessor property has or lacks a getter and a setter, and the flags enumerable,
  configurable.
\<close>

datatype 'n property =
    DataProperty "'n pvalue" bool bool bool
  | AccessorProperty bool bool bool bool

text \<open>
  An ordinary object: its own properties, its prototype (\<open>None\<close> is \<^verbatim>\<open>null\<close>) and whether
  it is extensible. A prototype chain is finite and has no cycle, so an object carries
  its chain with it.
\<close>

datatype 'n object =
  Object (properties: "(string \<times> 'n property) list") (prototype: "'n object option")
    (extensible: bool)

text \<open>
  What \<^verbatim>\<open>[[Set]]\<close> answers: true, with the receiver as it then is; false; or that the
  property found is an accessor with a setter. The setter is a function outside the
  module, and the model says nothing of what it does.
\<close>

datatype 'n set_result = SetTrue "'n object" | SetFalse | SetterCalled

datatype 'a outcome = Returned 'a | Thrown jserror | SetterRuns

definition Object_create :: "'n object option \<Rightarrow> 'n object" where
  "Object_create proto = Object [] proto True"

text \<open>
  The end of \<^verbatim>\<open>[[Set]]\<close> for a data property: the receiver's own property of that name
  is updated if it is a writable data property; if the receiver has none, a property
  that is writable, enumerable and configurable is created, provided the receiver is
  extensible.
\<close>

fun set_on_receiver :: "'n object \<Rightarrow> string \<Rightarrow> 'n pvalue \<Rightarrow> 'n set_result" where
  "set_on_receiver (Object props proto ext) P V =
     (case map_of props P of
        Some (AccessorProperty g s e c) \<Rightarrow> SetFalse
      | Some (DataProperty old w e c) \<Rightarrow>
          if \<not> w then SetFalse
          else SetTrue (Object (AList.update P (DataProperty V w e c) props) proto ext)
      | None \<Rightarrow>
          if ext then SetTrue (Object (props @ [(P, DataProperty V True True True)]) proto ext)
          else SetFalse)"

text \<open>
  \<^verbatim>\<open>O.[[Set]](P, V, Receiver)\<close>: the first property named \<open>P\<close> on the chain from \<open>O\<close>
  decides. A data property that is not writable and an accessor with no setter make
  the assignment fail; with no such property on the chain the property is created on
  the receiver.
\<close>

fun OrdinarySet ::
  "'n object option \<Rightarrow> string \<Rightarrow> 'n pvalue \<Rightarrow> 'n object \<Rightarrow> 'n set_result" where
  "OrdinarySet None P V Receiver = set_on_receiver Receiver P V"
| "OrdinarySet (Some (Object props proto ext)) P V Receiver =
     (case map_of props P of
        None \<Rightarrow> OrdinarySet proto P V Receiver
      | Some (DataProperty old w e c) \<Rightarrow>
          if \<not> w then SetFalse else set_on_receiver Receiver P V
      | Some (AccessorProperty g s e c) \<Rightarrow> if s then SetterCalled else SetFalse)"

text \<open>An array index as a property key.\<close>

function decimal :: "nat \<Rightarrow> string" where
  "decimal n =
     (if n < 10 then [char_of (48 + n)]
      else decimal (n div 10) @ [char_of (48 + n mod 10)])"
  by pat_completeness auto
termination
  by (relation "measure id") auto

declare decimal.simps [simp del]

text \<open>
  The own enumerable properties of the source of \<^verbatim>\<open>Object.assign\<close>, in key order: those
  of an object, the elements of an array, the characters of a string; \<^verbatim>\<open>null\<close> is
  skipped, a boolean and a number have none.
\<close>

fun own_enumerable :: "'n json \<Rightarrow> (string \<times> 'n json) list" where
  "own_enumerable (VObject kvs) = kvs"
| "own_enumerable (VArray xs) = zip (map decimal [0..<length xs]) xs"
| "own_enumerable (VString s) = zip (map decimal [0..<length s]) (map (\<lambda>c. VString [c]) s)"
| "own_enumerable v = []"

text \<open>
  \<^verbatim>\<open>Object.assign(to, source)\<close> sets each property with \<^verbatim>\<open>Set(to, key, value, true)\<close>: an
  assignment that fails throws \<^verbatim>\<open>TypeError\<close>.
\<close>

fun assign_all :: "(string \<times> 'n json) list \<Rightarrow> 'n object \<Rightarrow> 'n object outcome" where
  "assign_all [] to = Returned to"
| "assign_all ((k, v) # rest) to =
     (case OrdinarySet (Some to) k (Json v) to of
        SetTrue to' \<Rightarrow> assign_all rest to'
      | SetFalse \<Rightarrow> Thrown TypeError
      | SetterCalled \<Rightarrow> SetterRuns)"

definition Object_assign :: "'n object \<Rightarrow> 'n json \<Rightarrow> 'n object outcome" where
  "Object_assign to source = assign_all (own_enumerable source) to"

definition getJSON :: "('n json \<Rightarrow> string) \<Rightarrow> 'n json \<Rightarrow> string" where
  "getJSON JSON_stringify obj = JSON_stringify obj"

definition fromJSON ::
  "(string \<Rightarrow> 'n json option) \<Rightarrow> 'n object option \<Rightarrow> string \<Rightarrow> 'n object outcome" where
  "fromJSON JSON_parse proto json =
     (let obj = Object_create proto
      in case JSON_parse json of
           None \<Rightarrow> Thrown SyntaxError
         | Some parsed \<Rightarrow> Object_assign obj parsed)"

text \<open>
  A key can be assigned through a prototype when the first property of that name on
  the chain, if there is one, is a writable data property.
\<close>

fun assignable :: "'n object option \<Rightarrow> string \<Rightarrow> bool" where
  "assignable None k = True"
| "assignable (Some (Object props proto ext)) k =
     (case map_of props k of
        None \<Rightarrow> assignable proto k
      | Some (DataProperty old w e c) \<Rightarrow> w
      | Some (AccessorProperty g s e c) \<Rightarrow> False)"

text \<open>
  Example prototypes. \<open>Object_prototype\<close> stands for \<^verbatim>\<open>Object.prototype\<close>, abridged to
  two of its properties. \<open>Circle_prototype\<close> is the prototype of a constructor function
  with one method. \<open>Shape_prototype\<close> is the prototype of
  \<^verbatim>\<open>class Shape { get area() { ... } }\<close>: the getter has no setter.
\<close>

definition Object_prototype :: "int object" where
  "Object_prototype =
     Object [(''__proto__'', AccessorProperty True True False True),
             (''toString'', DataProperty (Other 0) True False True)] None True"

definition Circle_prototype :: "int object" where
  "Circle_prototype =
     Object [(''constructor'', DataProperty (Other 1) True False True),
             (''getCircumference'', DataProperty (Other 2) True True True)]
       (Some Object_prototype) True"

definition Shape_prototype :: "int object" where
  "Shape_prototype =
     Object [(''constructor'', DataProperty (Other 3) True False True),
             (''area'', AccessorProperty True False False True)]
       (Some Object_prototype) True"


section \<open>Basic facts\<close>

lemma clean_constructor: "clean this = constructor"
  by (simp add: clean_def constructor_def)

lemmas eval_simps =
  and_then_def cssSelectorBuilder_def module_heap_def element_def id_method_def
  class_method_def attr_def pseudoClass_def pseudoElement_def combine_def
  stringify_simple_def clean_constructor constructor_def

lemmas group_defs =
  id_group_def class_group_def attribute_group_def pseudoClass_group_def
  pseudoElement_group_def first_nonempty_def last_given_def

lemma join_prefixed: "cs \<noteq> [] \<Longrightarrow> s @ join s cs = concat (map (\<lambda>c. s @ c) cs)"
  by (induction s cs rule: join.induct) simp_all

lemma join_empty: "join [] xs = concat xs"
  by (induction "[]::string" xs rule: join.induct) simp_all

lemma stringify_simple_canonical: "stringify_simple b = canonical b"
  using join_prefixed [of "classNames b" "''.''"] join_prefixed [of "pseudoClasses b" "'':''"]
  by (simp add: stringify_simple_def canonical_def id_group_def class_group_def
      attribute_group_def pseudoClass_group_def pseudoElement_group_def join_empty)

lemma stringify_simple_branch:
  "h this = Some b \<Longrightarrow> \<not> ToBoolean (selector1 b) \<Longrightarrow>
   stringify (Suc n) h this = (Return (stringify_simple b), h(this \<mapsto> constructor))"
  by (simp add: clean_constructor)

lemma stringify_resets:
  "stringify depth h this = (Return r, h') \<Longrightarrow> h' this = Some constructor"
  by (cases depth)
     (auto simp: clean_constructor Let_def
           split: option.splits if_splits jsval.splits prod.splits completion.splits)

lemma stringify_combined_heap:
  "stringify 2 combined_heap 0 =
     (Return ''div + span'', [0 \<mapsto> constructor, 1 \<mapsto> constructor, 2 \<mapsto> constructor])"
  by (simp add: combined_heap_def eval_simps numeral_2_eq_2 fun_upd_twist)

lemma first_nonempty_simps:
  "first_nonempty ([] # vs) = first_nonempty vs"
  "v \<noteq> [] \<Longrightarrow> first_nonempty (v # vs) = v"
  "first_nonempty [] = []"
  by (simp_all add: first_nonempty_def)

lemma last_given_simps:
  "last_given (v # w # vs) = last_given (w # vs)"
  "last_given [v] = v"
  "last_given [] = []"
  "last_given ([] # vs) = last_given vs"
  by (simp_all add: last_given_def)

lemma args_simps:
  "element_args [] = []"
  "element_args (c # cs) = (case c of Element v \<Rightarrow> v # element_args cs | _ \<Rightarrow> element_args cs)"
  "id_args [] = []"
  "id_args (c # cs) = (case c of Id v \<Rightarrow> v # id_args cs | _ \<Rightarrow> id_args cs)"
  "class_args [] = []"
  "class_args (c # cs) = (case c of Class v \<Rightarrow> v # class_args cs | _ \<Rightarrow> class_args cs)"
  "attr_args [] = []"
  "attr_args (c # cs) = (case c of Attr v \<Rightarrow> v # attr_args cs | _ \<Rightarrow> attr_args cs)"
  "pseudoClass_args [] = []"
  "pseudoClass_args (c # cs) =
     (case c of PseudoClass v \<Rightarrow> v # pseudoClass_args cs | _ \<Rightarrow> pseudoClass_args cs)"
  "pseudoElement_args [] = []"
  "pseudoElement_args (c # cs) =
     (case c of PseudoElement v \<Rightarrow> v # pseudoElement_args cs | _ \<Rightarrow> pseudoElement_args cs)"
  by (simp_all add: element_args_def id_args_def class_args_def attr_args_def
      pseudoClass_args_def pseudoElement_args_def map_filter_simps split: call.splits)


section \<open>Chains of building calls\<close>

lemma invoke_effect:
  "c \<noteq> Stringify \<Longrightarrow> h a = Some b \<Longrightarrow>
   invoke d c (JObject a) h = (Return (JObject a), h(a \<mapsto> effect c b))"
  by (cases c) simp_all

lemma chain_builds:
  "Stringify \<notin> set ops \<Longrightarrow> h a = Some b \<Longrightarrow>
   chain d ops (JObject a) h = (Return (JObject a), h(a \<mapsto> fold effect ops b))"
proof (induction ops arbitrary: h b)
  case Nil
  then show ?case by (simp add: map_upd_triv)
next
  case (Cons c cs)
  from Cons.prems have c: "c \<noteq> Stringify" and cs: "Stringify \<notin> set cs" by auto
  have inv: "invoke d c (JObject a) h = (Return (JObject a), h(a \<mapsto> effect c b))"
    using c Cons.prems(2) by (rule invoke_effect)
  have ih: "chain d cs (JObject a) (h(a \<mapsto> effect c b)) =
        (Return (JObject a), (h(a \<mapsto> effect c b))(a \<mapsto> fold effect cs (effect c b)))"
    by (rule Cons.IH [OF cs]) simp
  show ?case
    by (simp only: chain.simps inv prod.case completion.case ih fun_upd_upd fold_simps o_apply)
qed

lemma chain_append:
  "chain d (xs @ ys) recv h =
     (case chain d xs recv h of
        (Return r, h') \<Rightarrow> chain d ys r h'
      | (Throw e, h') \<Rightarrow> (Throw e, h'))"
  by (induction xs arbitrary: recv h) (auto split: prod.splits completion.splits)

lemma fold_effect_fields:
  "Stringify \<notin> set ops \<Longrightarrow>
     elementType (fold effect ops b) = first_nonempty (elementType b # element_args ops) \<and>
     idName (fold effect ops b) = last_given (idName b # id_args ops) \<and>
     classNames (fold effect ops b) = classNames b @ class_args ops \<and>
     attributes (fold effect ops b) = attributes b @ attr_args ops \<and>
     pseudoClasses (fold effect ops b) = pseudoClasses b @ pseudoClass_args ops \<and>
     pseudoElem (fold effect ops b) = last_given (pseudoElem b # pseudoElement_args ops) \<and>
     selector1 (fold effect ops b) = selector1 b \<and>
     selector2 (fold effect ops b) = selector2 b"
proof (induction ops arbitrary: b)
  case Nil
  show ?case
    by (cases "elementType b = []")
       (simp_all add: args_simps first_nonempty_simps last_given_simps)
next
  case (Cons c cs)
  from Cons.prems have c: "c \<noteq> Stringify" and cs: "Stringify \<notin> set cs" by auto
  note IH = Cons.IH [OF cs, of "effect c b"]
  from c show ?case
  proof (cases c)
    case (Element v)
    with IH show ?thesis
      by (cases "elementType b = []")
         (simp_all add: args_simps element_def first_nonempty_simps)
  qed (use IH in \<open>simp_all add: args_simps id_method_def class_method_def attr_def
         pseudoClass_def pseudoElement_def combine_def last_given_simps first_nonempty_def\<close>)
qed

lemma chain_render:
  assumes "Stringify \<notin> set ops" and "h a = Some b" and "\<not> ToBoolean (selector1 b)"
  shows "chain (Suc n) (ops @ [Stringify]) (JObject a) h =
           (Return (JString (canonical (fold effect ops b))), h(a \<mapsto> constructor))"
proof -
  have sel: "\<not> ToBoolean (selector1 (fold effect ops b))"
    using fold_effect_fields [OF assms(1), of b] assms(3) by simp
  have "stringify (Suc n) (h(a \<mapsto> fold effect ops b)) a =
          (Return (stringify_simple (fold effect ops b)),
           (h(a \<mapsto> fold effect ops b))(a \<mapsto> constructor))"
    by (rule stringify_simple_branch) (simp_all add: sel)
  then have "invoke (Suc n) Stringify (JObject a) (h(a \<mapsto> fold effect ops b)) =
          (Return (JString (canonical (fold effect ops b))), h(a \<mapsto> constructor))"
    by (simp add: stringify_simple_canonical del: stringify.simps)
  then show ?thesis
    by (simp add: chain_append chain_builds [where h = h and a = a, OF assms(1,2)]
          del: invoke.simps)
qed

lemma chain_render_module:
  assumes "Stringify \<notin> set ops"
  shows "chain (Suc n) (ops @ [Stringify]) cssSelectorBuilder module_heap =
           (Return (JString
              (first_nonempty (element_args ops) @ id_group (last_given (id_args ops)) @
               class_group (class_args ops) @ attribute_group (attr_args ops) @
               pseudoClass_group (pseudoClass_args ops) @
               pseudoElement_group (last_given (pseudoElement_args ops)))),
            module_heap)"
proof -
  have "chain (Suc n) (ops @ [Stringify]) (JObject 0) [0 \<mapsto> constructor] =
          (Return (JString (canonical (fold effect ops constructor))),
           [0 \<mapsto> constructor](0 \<mapsto> constructor))"
    by (rule chain_render [where h = "[0 \<mapsto> constructor]" and a = 0, OF assms])
       (simp_all add: constructor_def)
  moreover have "canonical (fold effect ops constructor) =
      first_nonempty (element_args ops) @ id_group (last_given (id_args ops)) @
      class_group (class_args ops) @ attribute_group (attr_args ops) @
      pseudoClass_group (pseudoClass_args ops) @
      pseudoElement_group (last_given (pseudoElement_args ops))"
    using fold_effect_fields [OF assms, of constructor]
    by (simp add: canonical_def constructor_def first_nonempty_simps last_given_simps)
  ultimately show ?thesis
    by (simp add: cssSelectorBuilder_def module_heap_def)
qed


section \<open>The store of the module holds one simple selector\<close>

lemma effect_selectors:
  "selector1 b = JNull \<Longrightarrow> selector1 (effect c b) = JNull"
  "selector2 b = JNull \<Longrightarrow> selector2 (effect c b) = JNull"
  by (cases c; simp add: element_def id_method_def class_method_def attr_def pseudoClass_def
        pseudoElement_def combine_def clean_def)+

lemma invoke_single:
  assumes "selector1 b0 = JNull"
  shows "snd (invoke depth c recv [0 \<mapsto> b0]) = [0 \<mapsto> b0] \<or>
         snd (invoke depth c recv [0 \<mapsto> b0]) = [0 \<mapsto> effect c b0]"
proof (cases recv)
  case (JObject a)
  show ?thesis
  proof (cases "a = 0")
    case True
    show ?thesis
    proof (cases "c = Stringify")
      case False
      then show ?thesis using JObject True by (simp add: invoke_effect del: invoke.simps)
    next
      case c: True
      show ?thesis
      proof (cases depth)
        case 0
        then show ?thesis using JObject True c by simp
      next
        case (Suc n)
        then show ?thesis using JObject True c assms by simp
      qed
    qed
  next
    case False
    then show ?thesis using JObject by simp
  qed
qed simp_all

lemma run_single:
  "selector1 b0 = JNull \<Longrightarrow> selector2 b0 = JNull \<Longrightarrow>
   \<exists>b. run prog [0 \<mapsto> b0] = [0 \<mapsto> b] \<and> selector1 b = JNull \<and> selector2 b = JNull"
proof (induction prog arbitrary: b0)
  case Nil
  then show ?case by (intro exI [of _ b0]) simp
next
  case (Cons step prog)
  obtain depth c recv where step: "step = (depth, c, recv)" by (cases step)
  have unfold: "run (step # prog) [0 \<mapsto> b0] = run prog (snd (invoke depth c recv [0 \<mapsto> b0]))"
    by (simp only: step run.simps)
  from invoke_single [OF Cons.prems(1), of depth c recv]
  show ?case
  proof
    assume "snd (invoke depth c recv [0 \<mapsto> b0]) = [0 \<mapsto> b0]"
    then show ?thesis unfolding unfold using Cons.IH [OF Cons.prems] by (simp only:)
  next
    assume "snd (invoke depth c recv [0 \<mapsto> b0]) = [0 \<mapsto> effect c b0]"
    then show ?thesis unfolding unfold
      using Cons.IH [of "effect c b0"] Cons.prems by (simp only: effect_selectors)
  qed
qed

lemma run_module_heap:
  "\<exists>b. run prog module_heap = [0 \<mapsto> b] \<and> selector1 b = JNull \<and> selector2 b = JNull"
  unfolding module_heap_def by (rule run_single) (simp_all add: constructor_def)

section \<open>Claims\<close>

subsection \<open>C1: rendering a combined selector\<close>

text \<open>
  Claim C1 says that \<^verbatim>\<open>combine(L, op, R)\<close> renders as \<^verbatim>\<open>render(L) + " " + op + " " + render(R)\<close>,
  and that the nested example renders \<^verbatim>\<open>"div + span > p"\<close>. On the code the nested
  example returns the string \<^verbatim>\<open>"div"\<close>, with any stack depth of at least one:
  \<^verbatim>\<open>combine\<close> stores its first argument in \<^verbatim>\<open>combinator\<close> and never sets
  \<^verbatim>\<open>selector1\<close> or \<^verbatim>\<open>selector2\<close>, and the three \<^verbatim>\<open>element\<close> calls land on the one shared
  object, which keeps the first. In general, after any program of calls, \<^verbatim>\<open>combine\<close>
  with any three arguments followed by \<^verbatim>\<open>stringify\<close> renders the simple selector the
  exported object holds, with no operator in it.
\<close>

theorem combine_example_renders_div:
  "combine_example (Suc n) = (Return (JString ''div''), module_heap) \<and>
   (\<exists>b. run prog module_heap = [0 \<mapsto> b] \<and>
        chain (Suc n) [Combine [L, op, R], Stringify] cssSelectorBuilder (run prog module_heap) =
          (Return (JString (stringify_simple b)), module_heap))"
proof
  show "combine_example (Suc n) = (Return (JString ''div''), module_heap)"
    by (simp add: combine_example_def eval_simps)
next
  from run_module_heap [of prog] obtain b where
    b: "run prog module_heap = [0 \<mapsto> b]" "selector1 b = JNull" "selector2 b = JNull"
    by blast
  have "stringify_simple (combine [L, op, R] b) = stringify_simple b"
    by (simp add: stringify_simple_def combine_def)
  then have "chain (Suc n) [Combine [L, op, R], Stringify] (JObject 0) [0 \<mapsto> b] =
          (Return (JString (stringify_simple b)), [0 \<mapsto> constructor])"
    by (simp add: b combine_def clean_constructor)
  then have "chain (Suc n) [Combine [L, op, R], Stringify] cssSelectorBuilder
               (run prog module_heap) =
          (Return (JString (stringify_simple b)), module_heap)"
    unfolding b(1) unfolding cssSelectorBuilder_def module_heap_def .
  with b(1) show "\<exists>b. run prog module_heap = [0 \<mapsto> b] \<and>
        chain (Suc n) [Combine [L, op, R], Stringify] cssSelectorBuilder (run prog module_heap) =
          (Return (JString (stringify_simple b)), module_heap)"
    by blast
qed

theorem combine_example_renders_div_witness:
  "combine_example (Suc 0) = (Return (JString ''div''), module_heap) \<and>
   JString ''div'' \<noteq> JString ''div + span > p'' \<and>
   run [(1, Element ''div'', cssSelectorBuilder)] module_heap =
     [0 \<mapsto> constructor\<lparr>elementType := ''div''\<rparr>] \<and>
   chain (Suc 0) [Combine [cssSelectorBuilder, JString ''+'', cssSelectorBuilder], Stringify]
     cssSelectorBuilder (run [(1, Element ''div'', cssSelectorBuilder)] module_heap) =
     (Return (JString ''div''), module_heap)"
  using combine_example_renders_div
    [of 0 "[(1, Element ''div'', cssSelectorBuilder)]" cssSelectorBuilder "JString ''+''"
        cssSelectorBuilder]
  by (simp add: eval_simps)

text \<open>
  The example of the documentation comment does not give the documented string either:
  the later \<^verbatim>\<open>element\<close> calls are ignored, \<^verbatim>\<open>id('data')\<close> replaces \<^verbatim>\<open>'main'\<close>, and no
  combinator is printed.
\<close>

lemma documented_example_renders:
  "documented_example (Suc n) =
     (Return (JString ''div#data.container.draggable:nth-of-type(even):nth-of-type(even)''),
      module_heap)"
  by (simp add: documented_example_def eval_simps)


subsection \<open>C2: a part given twice\<close>

text \<open>
  Claim C2 says that a second \<^verbatim>\<open>element\<close>, \<^verbatim>\<open>id\<close> or \<^verbatim>\<open>pseudoElement\<close> call on one
  accumulation fails with DuplicateSelectorPart. Counterexample: on the freshly loaded
  module each of the chains \<^verbatim>\<open>element('div').element('span')\<close>, \<^verbatim>\<open>id('a').id('b')\<close> and
  \<^verbatim>\<open>pseudoElement('before').pseudoElement('after')\<close> returns the selector; the first
  keeps \<^verbatim>\<open>'div'\<close>, the others keep the second value.
\<close>

theorem duplicate_part_counterexample:
  "chain 1 [Element ''div'', Element ''span''] cssSelectorBuilder module_heap =
     (Return cssSelectorBuilder, [0 \<mapsto> constructor\<lparr>elementType := ''div''\<rparr>]) \<and>
   chain 1 [Id ''a'', Id ''b''] cssSelectorBuilder module_heap =
     (Return cssSelectorBuilder, [0 \<mapsto> constructor\<lparr>idName := ''b''\<rparr>]) \<and>
   chain 1 [PseudoElement ''before'', PseudoElement ''after''] cssSelectorBuilder module_heap =
     (Return cssSelectorBuilder, [0 \<mapsto> constructor\<lparr>pseudoElem := ''after''\<rparr>])"
  by (simp add: eval_simps)

text \<open>
  Claim C2 as amended: no building call fails. A chain of building calls (any calls but
  \<^verbatim>\<open>stringify\<close>) on a selector object returns that object; the element type it keeps
  is the first non-empty one among the one it had and those given, so a later
  \<^verbatim>\<open>element\<close> call is ignored; the id and the pseudo-element it keeps are the last ones
  given, so a later \<^verbatim>\<open>id\<close> or \<^verbatim>\<open>pseudoElement\<close> call replaces the value.
\<close>

theorem duplicate_part_kept:
  "Stringify \<notin> set ops \<Longrightarrow> h this = Some b \<Longrightarrow>
   chain depth ops (JObject this) h = (Return (JObject this), h(this \<mapsto> fold effect ops b)) \<and>
   elementType (fold effect ops b) = first_nonempty (elementType b # element_args ops) \<and>
   idName (fold effect ops b) = last_given (idName b # id_args ops) \<and>
   pseudoElem (fold effect ops b) = last_given (pseudoElem b # pseudoElement_args ops)"
  using chain_builds [of ops h this b depth] fold_effect_fields [of ops b] by blast

theorem duplicate_part_kept_witness:
  "Stringify \<notin> set [Element ''div'', Id ''a'', Element ''span'', Id ''b''] \<and>
   module_heap 0 = Some constructor \<and>
   chain 1 [Element ''div'', Id ''a'', Element ''span'', Id ''b''] (JObject 0) module_heap =
     (Return (JObject 0),
      module_heap(0 \<mapsto> fold effect [Element ''div'', Id ''a'', Element ''span'', Id ''b'']
                         constructor)) \<and>
   elementType (fold effect [Element ''div'', Id ''a'', Element ''span'', Id ''b''] constructor) =
     ''div'' \<and>
   idName (fold effect [Element ''div'', Id ''a'', Element ''span'', Id ''b''] constructor) =
     ''b'' \<and>
   pseudoElem (fold effect [Element ''div'', Id ''a'', Element ''span'', Id ''b''] constructor) =
     []"
proof -
  have 1: "Stringify \<notin> set [Element ''div'', Id ''a'', Element ''span'', Id ''b'']" by simp
  have 2: "module_heap 0 = Some constructor" by (simp add: module_heap_def)
  show ?thesis
    using 1 2 duplicate_part_kept
      [of "[Element ''div'', Id ''a'', Element ''span'', Id ''b'']" module_heap 0 constructor 1]
    by (simp add: args_simps first_nonempty_def last_given_def constructor_def)
qed


subsection \<open>C3: the order of the fragment groups\<close>

text \<open>
  Claim C3: rendering a simple selector (an object whose \<^verbatim>\<open>selector1\<close> is not set, with
  a stack depth of at least one) returns the concatenation, with no separators, of the
  element type, \<^verbatim>\<open>#\<close> and the id, the classes each after a \<^verbatim>\<open>.\<close>, the attributes in
  one bracket pair, the pseudo-classes each after a \<^verbatim>\<open>:\<close>, and \<^verbatim>\<open>::\<close> and the
  pseudo-element, each group only if present. The order of the building calls does
  not matter: a chain of building calls on the freshly loaded module, ended by
  \<^verbatim>\<open>stringify\<close>, renders the groups in that order from the arguments each kind of call
  was given (the first non-empty element type, the last id, the classes, attributes and
  pseudo-classes in call order, the last pseudo-element).
\<close>

theorem render_order:
  "(h this = Some b \<and> \<not> ToBoolean (selector1 b) \<longrightarrow>
      stringify (Suc n) h this =
        (Return (elementType b @ id_group (idName b) @ class_group (classNames b) @
                 attribute_group (attributes b) @ pseudoClass_group (pseudoClasses b) @
                 pseudoElement_group (pseudoElem b)),
         h(this \<mapsto> constructor))) \<and>
   (Stringify \<notin> set ops \<longrightarrow>
      chain (Suc n) (ops @ [Stringify]) cssSelectorBuilder module_heap =
        (Return (JString
           (first_nonempty (element_args ops) @ id_group (last_given (id_args ops)) @
            class_group (class_args ops) @ attribute_group (attr_args ops) @
            pseudoClass_group (pseudoClass_args ops) @
            pseudoElement_group (last_given (pseudoElement_args ops)))),
         module_heap))"
proof (intro conjI impI)
  assume "h this = Some b \<and> \<not> ToBoolean (selector1 b)"
  then have "stringify (Suc n) h this = (Return (stringify_simple b), h(this \<mapsto> constructor))"
    by (intro stringify_simple_branch) simp_all
  then show "stringify (Suc n) h this =
        (Return (elementType b @ id_group (idName b) @ class_group (classNames b) @
                 attribute_group (attributes b) @ pseudoClass_group (pseudoClasses b) @
                 pseudoElement_group (pseudoElem b)),
         h(this \<mapsto> constructor))"
    by (simp only: stringify_simple_canonical canonical_def)
next
  assume "Stringify \<notin> set ops"
  then show "chain (Suc n) (ops @ [Stringify]) cssSelectorBuilder module_heap =
        (Return (JString
           (first_nonempty (element_args ops) @ id_group (last_given (id_args ops)) @
            class_group (class_args ops) @ attribute_group (attr_args ops) @
            pseudoClass_group (pseudoClass_args ops) @
            pseudoElement_group (last_given (pseudoElement_args ops)))),
         module_heap)"
    by (rule chain_render_module)
qed

theorem render_order_witness:
  "[0 \<mapsto> \<lparr>elementType = ''e'', idName = ''i'', classNames = [''c'', ''d''],
           attributes = [''x''], pseudoClasses = [''hover''], pseudoElem = ''before'',
           selector1 = JNull, selector2 = JNull, combinator = JString []\<rparr>] 0 =
     Some \<lparr>elementType = ''e'', idName = ''i'', classNames = [''c'', ''d''],
           attributes = [''x''], pseudoClasses = [''hover''], pseudoElem = ''before'',
           selector1 = JNull, selector2 = JNull, combinator = JString []\<rparr> \<and>
   stringify (Suc 0)
     [0 \<mapsto> \<lparr>elementType = ''e'', idName = ''i'', classNames = [''c'', ''d''],
           attributes = [''x''], pseudoClasses = [''hover''], pseudoElem = ''before'',
           selector1 = JNull, selector2 = JNull, combinator = JString []\<rparr>] 0 =
     (Return ''e#i.c.d[x]:hover::before'', module_heap) \<and>
   Stringify \<notin> set [PseudoElement ''before'', PseudoClass ''hover'', Attr ''x'', Class ''c'',
                      Id ''i'', Class ''d'', Element ''e''] \<and>
   chain (Suc 0)
     ([PseudoElement ''before'', PseudoClass ''hover'', Attr ''x'', Class ''c'',
       Id ''i'', Class ''d'', Element ''e''] @ [Stringify]) cssSelectorBuilder module_heap =
     (Return (JString ''e#i.c.d[x]:hover::before''), module_heap)"
  using render_order
    [of "[0 \<mapsto> \<lparr>elementType = ''e'', idName = ''i'', classNames = [''c'', ''d''],
           attributes = [''x''], pseudoClasses = [''hover''], pseudoElem = ''before'',
           selector1 = JNull, selector2 = JNull, combinator = JString []\<rparr>]" 0
        "\<lparr>elementType = ''e'', idName = ''i'', classNames = [''c'', ''d''],
           attributes = [''x''], pseudoClasses = [''hover''], pseudoElem = ''before'',
           selector1 = JNull, selector2 = JNull, combinator = JString []\<rparr>" 0
        "[PseudoElement ''before'', PseudoClass ''hover'', Attr ''x'', Class ''c'',
          Id ''i'', Class ''d'', Element ''e'']"]
  by (simp add: args_simps group_defs module_heap_def del: stringify.simps chain.simps)


subsection \<open>C4: several attributes share one bracket pair\<close>

text \<open>
  Claim C4: rendering a simple selector that holds two or more attributes (with a stack
  depth of at least one) emits, between the class group and the pseudo-class group, one
  bracket pair around the attribute expressions concatenated with no separator. So does
  a chain of building calls on the freshly loaded module that gives two or more
  attributes; \<^verbatim>\<open>attr('a=1').attr('b=2')\<close> renders \<^verbatim>\<open>[a=1b=2]\<close>.
\<close>

theorem attributes_one_bracket_pair:
  "(h this = Some b \<and> \<not> ToBoolean (selector1 b) \<and> 2 \<le> length (attributes b) \<longrightarrow>
      stringify (Suc n) h this =
        (Return (elementType b @ id_group (idName b) @ class_group (classNames b) @
                 ''['' @ concat (attributes b) @ '']'' @
                 pseudoClass_group (pseudoClasses b) @ pseudoElement_group (pseudoElem b)),
         h(this \<mapsto> constructor))) \<and>
   (Stringify \<notin> set ops \<and> 2 \<le> length (attr_args ops) \<longrightarrow>
      chain (Suc n) (ops @ [Stringify]) cssSelectorBuilder module_heap =
        (Return (JString
           (first_nonempty (element_args ops) @ id_group (last_given (id_args ops)) @
            class_group (class_args ops) @ ''['' @ concat (attr_args ops) @ '']'' @
            pseudoClass_group (pseudoClass_args ops) @
            pseudoElement_group (last_given (pseudoElement_args ops)))),
         module_heap))"
proof (intro conjI impI)
  assume a: "h this = Some b \<and> \<not> ToBoolean (selector1 b) \<and> 2 \<le> length (attributes b)"
  then have "attribute_group (attributes b) = ''['' @ concat (attributes b) @ '']''"
    by (auto simp: attribute_group_def)
  moreover from a have
    "stringify (Suc n) h this = (Return (stringify_simple b), h(this \<mapsto> constructor))"
    by (intro stringify_simple_branch) simp_all
  ultimately show "stringify (Suc n) h this =
        (Return (elementType b @ id_group (idName b) @ class_group (classNames b) @
                 ''['' @ concat (attributes b) @ '']'' @
                 pseudoClass_group (pseudoClasses b) @ pseudoElement_group (pseudoElem b)),
         h(this \<mapsto> constructor))"
    by (simp add: stringify_simple_canonical canonical_def del: stringify.simps)
next
  assume a: "Stringify \<notin> set ops \<and> 2 \<le> length (attr_args ops)"
  then have ops: "Stringify \<notin> set ops" ..
  from a have "attribute_group (attr_args ops) = ''['' @ concat (attr_args ops) @ '']''"
    by (auto simp: attribute_group_def)
  with chain_render_module [OF ops, of n]
  show "chain (Suc n) (ops @ [Stringify]) cssSelectorBuilder module_heap =
        (Return (JString
           (first_nonempty (element_args ops) @ id_group (last_given (id_args ops)) @
            class_group (class_args ops) @ ''['' @ concat (attr_args ops) @ '']'' @
            pseudoClass_group (pseudoClass_args ops) @
            pseudoElement_group (last_given (pseudoElement_args ops)))),
         module_heap)"
    by simp
qed

theorem attributes_one_bracket_pair_witness:
  "[0 \<mapsto> constructor\<lparr>elementType := ''a'', attributes := [''a=1'', ''b=2''],
                        pseudoClasses := [''focus'']\<rparr>] 0 =
     Some (constructor\<lparr>elementType := ''a'', attributes := [''a=1'', ''b=2''],
                        pseudoClasses := [''focus'']\<rparr>) \<and>
   2 \<le> length (attributes (constructor\<lparr>elementType := ''a'', attributes := [''a=1'', ''b=2''],
                                         pseudoClasses := [''focus'']\<rparr>)) \<and>
   stringify (Suc 0)
     [0 \<mapsto> constructor\<lparr>elementType := ''a'', attributes := [''a=1'', ''b=2''],
                          pseudoClasses := [''focus'']\<rparr>] 0 =
     (Return ''a[a=1b=2]:focus'', module_heap) \<and>
   Stringify \<notin> set [Attr ''a=1'', Attr ''b=2''] \<and>
   2 \<le> length (attr_args [Attr ''a=1'', Attr ''b=2'']) \<and>
   chain (Suc 0) ([Attr ''a=1'', Attr ''b=2''] @ [Stringify]) cssSelectorBuilder module_heap =
     (Return (JString ''[a=1b=2]''), module_heap)"
  using attributes_one_bracket_pair
    [of "[0 \<mapsto> constructor\<lparr>elementType := ''a'', attributes := [''a=1'', ''b=2''],
                             pseudoClasses := [''focus'']\<rparr>]" 0
        "constructor\<lparr>elementType := ''a'', attributes := [''a=1'', ''b=2''],
                       pseudoClasses := [''focus'']\<rparr>" 0
        "[Attr ''a=1'', Attr ''b=2'']"]
  by (simp add: args_simps group_defs module_heap_def constructor_def
        del: stringify.simps chain.simps)


subsection \<open>C5: chains through the exported object\<close>

text \<open>
  Claim C5 says that chains started through the facade share no state, also when their
  calls interleave, each entry operation producing a fresh selector. The class's
  documentation comment says the same: the exported object is a facade that creates
  selectors, and its \<^verbatim>\<open>combine\<close> example builds several operand chains before any is
  rendered. On the code, with any stack depth of at least one: \<^verbatim>\<open>element('div')\<close> on the
  exported object returns that same object, and the store still holds one object; with
  \<^verbatim>\<open>a = builder.element('div')\<close> and \<^verbatim>\<open>b = builder.id('x')\<close>, the call \<^verbatim>\<open>a.stringify()\<close>
  returns \<^verbatim>\<open>"div#x"\<close>, where the chain \<^verbatim>\<open>builder.element('div').stringify()\<close> alone
  returns \<^verbatim>\<open>"div"\<close>; and with the first two operands of the documented example built
  one after the other, rendering the first returns \<^verbatim>\<open>"div#data.container.draggable"\<close>,
  not \<^verbatim>\<open>"div#main.container.draggable"\<close>.
\<close>

theorem interleaved_chains_share_state:
  "invoke (Suc n) (Element ''div'') cssSelectorBuilder module_heap =
     (Return cssSelectorBuilder, [0 \<mapsto> constructor\<lparr>elementType := ''div''\<rparr>]) \<and>
   fst (interleaved_example (Suc n)) = Return (JString ''div#x'') \<and>
   fst (chain (Suc n) [Element ''div'', Stringify] cssSelectorBuilder module_heap) =
     Return (JString ''div'') \<and>
   fst (documented_operands (Suc n)) = Return (JString ''div#data.container.draggable'')"
  by (simp add: interleaved_example_def documented_operands_def eval_simps)

theorem interleaved_chains_share_state_witness:
  "invoke (Suc 0) (Element ''div'') cssSelectorBuilder module_heap =
     (Return cssSelectorBuilder, [0 \<mapsto> constructor\<lparr>elementType := ''div''\<rparr>]) \<and>
   fst (interleaved_example (Suc 0)) = Return (JString ''div#x'') \<and>
   fst (chain (Suc 0) [Element ''div'', Stringify] cssSelectorBuilder module_heap) =
     Return (JString ''div'') \<and>
   fst (documented_operands (Suc 0)) = Return (JString ''div#data.container.draggable'') \<and>
   JString ''div#x'' \<noteq> JString ''div'' \<and>
   JString ''div#data.container.draggable'' \<noteq> JString ''div#main.container.draggable''"
  using interleaved_chains_share_state [of 0]
  by (simp del: invoke.simps chain.simps stringify.simps)

text \<open>
  What the code does isolate: after any program of calls and a first chain ended by
  \<^verbatim>\<open>stringify\<close>, a second chain ended by \<^verbatim>\<open>stringify\<close> returns what it returns on
  the freshly loaded module, and leaves the same store.
\<close>

lemma sequential_chains:
  assumes ops1: "Stringify \<notin> set ops1"
  shows "and_then (chain (Suc n) (ops1 @ [Stringify]) cssSelectorBuilder (run prog module_heap))
           (\<lambda>r h. chain (Suc m) (ops2 @ [Stringify]) cssSelectorBuilder h) =
         chain (Suc m) (ops2 @ [Stringify]) cssSelectorBuilder module_heap"
proof -
  from run_module_heap [of prog] obtain b where
    b: "run prog module_heap = [0 \<mapsto> b]" "selector1 b = JNull" "selector2 b = JNull"
    by blast
  have "chain (Suc n) (ops1 @ [Stringify]) (JObject 0) [0 \<mapsto> b] =
          (Return (JString (canonical (fold effect ops1 b))), [0 \<mapsto> b](0 \<mapsto> constructor))"
    by (rule chain_render [where h = "[0 \<mapsto> b]" and a = 0, OF ops1]) (simp_all add: b)
  then have "chain (Suc n) (ops1 @ [Stringify]) cssSelectorBuilder (run prog module_heap) =
          (Return (JString (canonical (fold effect ops1 b))), module_heap)"
    unfolding b(1) unfolding cssSelectorBuilder_def module_heap_def by simp
  then show ?thesis by (simp only: and_then_def prod.case completion.case)
qed


subsection \<open>C6: rendering resets the selector\<close>

text \<open>
  Claim C6: whenever \<^verbatim>\<open>stringify\<close> returns, in either branch and on any store, the
  object it was called on holds the fields of a newly constructed selector. On the
  exported object, after any program of calls, \<^verbatim>\<open>stringify\<close> (with a stack depth of at
  least one) returns a string and leaves the store of the freshly loaded module, so the
  next chain inherits no class or attribute.
\<close>

theorem render_resets:
  "(stringify depth h this = (Return r, h') \<longrightarrow> h' this = Some constructor) \<and>
   (\<exists>s. invoke (Suc n) Stringify cssSelectorBuilder (run prog module_heap) =
          (Return (JString s), module_heap))"
proof
  show "stringify depth h this = (Return r, h') \<longrightarrow> h' this = Some constructor"
    using stringify_resets by blast
next
  from run_module_heap [of prog] obtain b where
    b: "run prog module_heap = [0 \<mapsto> b]" "selector1 b = JNull" "selector2 b = JNull"
    by blast
  have "invoke (Suc n) Stringify (JObject 0) [0 \<mapsto> b] =
          (Return (JString (stringify_simple b)), [0 \<mapsto> constructor])"
    by (simp add: b clean_constructor)
  then have "invoke (Suc n) Stringify cssSelectorBuilder (run prog module_heap) =
          (Return (JString (stringify_simple b)), module_heap)"
    unfolding b(1) unfolding cssSelectorBuilder_def module_heap_def .
  then show "\<exists>s. invoke (Suc n) Stringify cssSelectorBuilder (run prog module_heap) =
          (Return (JString s), module_heap)" ..
qed

theorem render_resets_witness:
  "stringify 2 combined_heap 0 =
     (Return ''div + span'', [0 \<mapsto> constructor, 1 \<mapsto> constructor, 2 \<mapsto> constructor]) \<and>
   [0 \<mapsto> constructor, 1 \<mapsto> constructor, 2 \<mapsto> constructor] 0 = Some constructor \<and>
   stringify 1 [0 \<mapsto> constructor\<lparr>classNames := [''x''], attributes := [''a'']\<rparr>] 0 =
     (Return ''.x[a]'', module_heap) \<and>
   module_heap 0 = Some constructor"
  using
    render_resets [of 2 combined_heap 0 "''div + span''"
      "[0 \<mapsto> constructor, 1 \<mapsto> constructor, 2 \<mapsto> constructor]"]
    render_resets [of 1 "[0 \<mapsto> constructor\<lparr>classNames := [''x''], attributes := [''a'']\<rparr>]" 0
      "''.x[a]''" module_heap]
  by (simp add: combined_heap_def eval_simps numeral_2_eq_2 fun_upd_twist)


subsection \<open>C7: element and id commute\<close>

text \<open>
  Claim C7: on the freshly loaded module the chains \<^verbatim>\<open>element('a').id('b')\<close> and
  \<^verbatim>\<open>id('b').element('a')\<close> both render \<^verbatim>\<open>"a#b"\<close>; and for all strings, receivers and
  stores the two orders of an \<^verbatim>\<open>element\<close> and an \<^verbatim>\<open>id\<close> call, followed by
  \<^verbatim>\<open>stringify\<close>, have the same outcome.
\<close>

theorem element_id_commute:
  "chain (Suc n) [Element ''a'', Id ''b'', Stringify] cssSelectorBuilder module_heap =
     (Return (JString ''a#b''), module_heap) \<and>
   chain (Suc n) [Id ''b'', Element ''a'', Stringify] cssSelectorBuilder module_heap =
     (Return (JString ''a#b''), module_heap) \<and>
   chain depth [Element x, Id y, Stringify] recv h = chain depth [Id y, Element x, Stringify] recv h"
proof (intro conjI)
  show "chain depth [Element x, Id y, Stringify] recv h =
        chain depth [Id y, Element x, Stringify] recv h"
  proof (cases recv)
    case (JObject a)
    show ?thesis
    proof (cases "h a")
      case None
      with JObject show ?thesis by simp
    next
      case (Some b)
      have "element x (id_method y b) = id_method y (element x b)"
        by (simp add: element_def id_method_def)
      with JObject Some show ?thesis by simp
    qed
  qed simp_all
qed (simp_all add: eval_simps)

theorem element_id_commute_witness:
  "chain (Suc 0) [Element ''a'', Id ''b'', Stringify] cssSelectorBuilder module_heap =
     (Return (JString ''a#b''), module_heap) \<and>
   chain (Suc 0) [Id ''b'', Element ''a'', Stringify] cssSelectorBuilder module_heap =
     (Return (JString ''a#b''), module_heap) \<and>
   chain 1 [Element ''h1'', Id ''top'', Stringify] cssSelectorBuilder module_heap =
     chain 1 [Id ''top'', Element ''h1'', Stringify] cssSelectorBuilder module_heap"
  using element_id_commute [of 0 1 "''h1''" "''top''" cssSelectorBuilder module_heap]
  by simp


subsection \<open>C8: classes keep their insertion order\<close>




subsection \<open>C9: selector1 and selector2 stay null\<close>

text \<open>
  Claim C9: after construction and after any program of calls of the methods, with any
  arguments, receivers and stack depths, the store holds the one exported object, its
  \<^verbatim>\<open>selector1\<close> and \<^verbatim>\<open>selector2\<close> are \<^verbatim>\<open>null\<close>, and \<^verbatim>\<open>stringify\<close> on it (with a stack
  depth of at least one) returns the string of the simple-selector branch.
\<close>

theorem selectors_stay_null:
  "\<exists>b. run prog module_heap = [0 \<mapsto> b] \<and> selector1 b = JNull \<and> selector2 b = JNull \<and>
       stringify (Suc n) (run prog module_heap) 0 = (Return (stringify_simple b), module_heap)"
proof -
  from run_module_heap [of prog] obtain b where
    b: "run prog module_heap = [0 \<mapsto> b]" "selector1 b = JNull" "selector2 b = JNull"
    by blast
  have "stringify (Suc n) [0 \<mapsto> b] 0 = (Return (stringify_simple b), [0 \<mapsto> constructor])"
    by (simp add: b clean_constructor)
  then have "stringify (Suc n) (run prog module_heap) 0 =
               (Return (stringify_simple b), module_heap)"
    unfolding b(1) unfolding module_heap_def .
  with b show ?thesis by blast
qed

theorem selectors_stay_null_witness:
  "\<exists>b. run [(1, Element ''div'', cssSelectorBuilder),
            (1, Combine [cssSelectorBuilder, JString ''+'', cssSelectorBuilder], cssSelectorBuilder),
            (0, Stringify, cssSelectorBuilder),
            (1, Class ''x'', JString ''div'')] module_heap = [0 \<mapsto> b] \<and>
       selector1 b = JNull \<and> selector2 b = JNull \<and>
       stringify (Suc 0)
         (run [(1, Element ''div'', cssSelectorBuilder),
               (1, Combine [cssSelectorBuilder, JString ''+'', cssSelectorBuilder],
                cssSelectorBuilder),
               (0, Stringify, cssSelectorBuilder),
               (1, Class ''x'', JString ''div'')] module_heap) 0 =
         (Return (stringify_simple b), module_heap)"
  by (rule selectors_stay_null)

subsection \<open>C10: fromJSON after getJSON\<close>

lemma OrdinarySet_assignable:
  "assignable p k \<Longrightarrow> OrdinarySet p k V R = set_on_receiver R k V"
  by (induction p k V R rule: OrdinarySet.induct)
     (auto split: option.splits property.splits)

lemma assign_all_fresh:
  "distinct (map fst kvs) \<Longrightarrow> fst ` set ps \<inter> fst ` set kvs = {} \<Longrightarrow>
   \<forall>k \<in> fst ` set kvs. assignable proto k \<Longrightarrow>
   assign_all kvs (Object ps proto True) =
     Returned (Object (ps @ map (\<lambda>(k, v). (k, DataProperty (Json v) True True True)) kvs)
                 proto True)"
proof (induction kvs arbitrary: ps)
  case Nil
  then show ?case by simp
next
  case (Cons kv kvs)
  obtain k v where kv: "kv = (k, v)" by (cases kv)
  from Cons.prems kv have fresh: "map_of ps k = None"
    by (auto simp: map_of_eq_None_iff)
  from Cons.prems kv have ok: "assignable proto k" by simp
  have step: "OrdinarySet (Some (Object ps proto True)) k (Json v) (Object ps proto True) =
          SetTrue (Object (ps @ [(k, DataProperty (Json v) True True True)]) proto True)"
    using fresh OrdinarySet_assignable [OF ok] by simp
  have "assign_all kvs (Object (ps @ [(k, DataProperty (Json v) True True True)]) proto True) =
     Returned (Object ((ps @ [(k, DataProperty (Json v) True True True)]) @
        map (\<lambda>(k, v). (k, DataProperty (Json v) True True True)) kvs) proto True)"
    using Cons.prems kv by (intro Cons.IH) auto
  with step kv show ?case by simp
qed

text \<open>
  Claim C10 says that for every prototype \<^verbatim>\<open>proto\<close> and every plain JSON-serializable
  object \<^verbatim>\<open>obj\<close>, \<^verbatim>\<open>fromJSON(proto, getJSON(obj))\<close> returns an object with the own
  enumerable properties of \<^verbatim>\<open>obj\<close> and the prototype \<^verbatim>\<open>proto\<close>. Counterexample: with
  \<^verbatim>\<open>class Shape { get area() { ... } }\<close>, \<^verbatim>\<open>proto = Shape.prototype\<close> and
  \<^verbatim>\<open>obj = {radius: 10, area: 314}\<close>, the call throws \<^verbatim>\<open>TypeError\<close>: \<^verbatim>\<open>Object.assign\<close>
  assigns \<^verbatim>\<open>area\<close> through the prototype, whose \<^verbatim>\<open>area\<close> has a getter and no setter.
  The two parameters are \<^verbatim>\<open>JSON.stringify\<close> and \<^verbatim>\<open>JSON.parse\<close> at this input.
\<close>

theorem fromJSON_getter_counterexample:
  "fromJSON
     (\<lambda>text. if text = ''{\"radius\":10,\"area\":314}''
             then Some (VObject [(''radius'', VNumber 10), (''area'', VNumber 314)])
             else None)
     (Some Shape_prototype)
     (getJSON (\<lambda>obj. ''{\"radius\":10,\"area\":314}'')
        (VObject [(''radius'', VNumber (10::int)), (''area'', VNumber 314)])) =
   Thrown TypeError"
  by (simp add: fromJSON_def getJSON_def Object_create_def Object_assign_def
      Shape_prototype_def Object_prototype_def)

text \<open>
  Claim C10 as amended: let \<^verbatim>\<open>obj\<close> be a JSON value that \<^verbatim>\<open>JSON.parse\<close> gives back from
  the text \<^verbatim>\<open>JSON.stringify\<close> makes of it, its keys distinct, and let \<^verbatim>\<open>proto\<close> be
  \<^verbatim>\<open>null\<close> or an ordinary object through which every key of \<^verbatim>\<open>obj\<close> can be assigned (the
  first property of that name on the chain of \<^verbatim>\<open>proto\<close>, if any, is a writable data
  property: not read-only, not an accessor). Then \<^verbatim>\<open>fromJSON(proto, getJSON(obj))\<close>
  returns a new extensible object whose prototype is \<^verbatim>\<open>proto\<close> and whose own properties
  are those of \<^verbatim>\<open>obj\<close>, in the same order, each writable, enumerable and configurable.
\<close>

theorem fromJSON_getJSON_roundtrip:
  "JSON_parse (JSON_stringify obj) = Some obj \<Longrightarrow>
   distinct (map fst (own_enumerable obj)) \<Longrightarrow>
   \<forall>k \<in> fst ` set (own_enumerable obj). assignable proto k \<Longrightarrow>
   fromJSON JSON_parse proto (getJSON JSON_stringify obj) =
     Returned
       (Object (map (\<lambda>(k, v). (k, DataProperty (Json v) True True True)) (own_enumerable obj))
          proto True)"
  using assign_all_fresh [of "own_enumerable obj" "[]" proto]
  by (simp add: fromJSON_def getJSON_def Object_create_def Object_assign_def)

theorem fromJSON_getJSON_roundtrip_witness:
  "(\<lambda>text. if text = ''{\"radius\":10}'' then Some (VObject [(''radius'', VNumber (10::int))])
            else None)
     ((\<lambda>obj. ''{\"radius\":10}'') (VObject [(''radius'', VNumber (10::int))])) =
     Some (VObject [(''radius'', VNumber (10::int))]) \<and>
   distinct (map fst (own_enumerable (VObject [(''radius'', VNumber (10::int))]))) \<and>
   assignable (Some Circle_prototype) ''radius'' \<and>
   fromJSON
     (\<lambda>text. if text = ''{\"radius\":10}'' then Some (VObject [(''radius'', VNumber 10)]) else None)
     (Some Circle_prototype)
     (getJSON (\<lambda>obj. ''{\"radius\":10}'') (VObject [(''radius'', VNumber (10::int))])) =
   Returned
     (Object [(''radius'', DataProperty (Json (VNumber 10)) True True True)]
        (Some Circle_prototype) True)"
  using fromJSON_getJSON_roundtrip
    [of "\<lambda>text. if text = ''{\"radius\":10}'' then Some (VObject [(''radius'', VNumber 10)])
                 else None"
        "\<lambda>obj. ''{\"radius\":10}''" "VObject [(''radius'', VNumber (10::int))]"
        "Some Circle_prototype"]
  by (simp add: Circle_prototype_def Object_prototype_def)

end
